theory Spec2Isabelle
  imports Complex_Main "HOL-Library.List_Lexorder" "HOL-Library.AList" "HOL-Library.Multiset"
begin

section \<open>Python text\<close>

text \<open>
  A Python \<open>str\<close> is a sequence of Unicode code points. It is modelled as the list of its
  code points, so that \<open>strip\<close> sees every Unicode white space character, the order of
  \<open>sorted\<close> is the lexicographic order of code points that Python uses for \<open>str\<close>, and
  the dash of the cold-start message (U+2014) is one character.
\<close>

type_synonym pystr = "nat list"

definition py :: "string \<Rightarrow> pystr" where
  "py s = map of_char s"

text \<open>The characters \<open>str.strip()\<close> removes: those for which \<open>str.isspace\<close> holds.\<close>

definition py_isspace :: "nat \<Rightarrow> bool" where
  "py_isspace c \<longleftrightarrow>
     (9 \<le> c \<and> c \<le> 13) \<or> (28 \<le> c \<and> c \<le> 32) \<or> c = 133 \<or> c = 160 \<or> c = 5760 \<or>
     (8192 \<le> c \<and> c \<le> 8202) \<or> c = 8232 \<or> c = 8233 \<or> c = 8239 \<or> c = 8287 \<or> c = 12288"

definition strip :: "pystr \<Rightarrow> pystr" where
  "strip s = rev (dropWhile py_isspace (rev (dropWhile py_isspace s)))"

text \<open>\<open>sep.join(parts)\<close>.\<close>

fun join :: "pystr \<Rightarrow> pystr list \<Rightarrow> pystr" where
  "join sep [] = []"
| "join sep [p] = p"
| "join sep (p # q # ps) = p @ sep @ join sep (q # ps)"

definition space :: pystr where
  "space = [32]"

section \<open>Helpers of \<open>app.py\<close>\<close>

text \<open>
  \<open>_uniq_sorted(values)\<close> is \<open>sorted({(v or "").strip() for v in values if (v or "").strip()})\<close>.
  The comprehension builds a Python set, whose iteration order depends on the hashes of
  its elements and differs from one process to the next. The parameter \<open>it\<close> is that order:
  it takes the elements in the order in which they are added to the set and returns them
  in the order in which the set is iterated. \<open>sorted\<close> is a stable sort.
\<close>

definition set_iteration :: "(pystr list \<Rightarrow> pystr list) \<Rightarrow> bool" where
  "set_iteration it \<longleftrightarrow> (\<forall>xs. distinct (it xs) \<and> set (it xs) = set xs)"

definition uniq_sorted :: "(pystr list \<Rightarrow> pystr list) \<Rightarrow> pystr list \<Rightarrow> pystr list" where
  "uniq_sorted it values = sort (it (map strip (filter (\<lambda>v. strip v \<noteq> []) values)))"

text \<open>
  \<open>_load_country_city_catalog()\<close>. The file is \<open>None\<close> when the path does not exist, and
  otherwise the items of the parsed JSON object in file order; a value that is not a JSON
  list is \<open>None\<close>, and the members of a list are taken after \<open>str(x)\<close>. The resulting
  dictionary is an association list in insertion order; \<open>AList.update\<close> replaces the value
  of a key that is present in place and appends a new key, as a Python \<open>dict\<close> does.
\<close>

type_synonym catalog_file = "(pystr \<times> pystr list option) list option"

type_synonym catalog = "(pystr \<times> pystr list) list"

definition load_country_city_catalog ::
  "(pystr list \<Rightarrow> pystr list) \<Rightarrow> catalog_file \<Rightarrow> catalog" where
  "load_country_city_catalog it file =
     (case file of
        None \<Rightarrow> []
      | Some data \<Rightarrow>
          foldl (\<lambda>out (k, v).
                   case v of
                     None \<Rightarrow> out
                   | Some xs \<Rightarrow> AList.update (strip k) (uniq_sorted it xs) out)
                [] data)"

text \<open>\<open>d.get(k, [])\<close>.\<close>

definition dict_get :: "('k \<times> 'v list) list \<Rightarrow> 'k \<Rightarrow> 'v list" where
  "dict_get d k = (case map_of d k of None \<Rightarrow> [] | Some v \<Rightarrow> v)"

section \<open>Models\<close>

text \<open>
  The columns of \<open>Trip\<close>. Dates and timestamps are points of an abstract clock. All columns
  but the two dates are declared \<open>nullable=False\<close>, so \<open>t.country or ""\<close> is \<open>t.country\<close>.
  The column \<open>notes\<close> is the field \<open>trip_notes\<close>, and \<open>id\<close> is \<open>trip_id\<close>.
\<close>

record trip =
  trip_id :: nat
  country :: pystr
  start_date :: "nat option"
  end_date :: "nat option"
  cities :: "pystr list"
  companions :: "pystr list"
  trip_notes :: pystr
  trip_created_at :: nat

text \<open>The columns of \<open>AppState\<close>; \<open>updated_at\<close> is declared with an \<open>onupdate\<close> hook.\<close>

record app_state =
  row_id :: nat
  visited :: "pystr list"
  planned :: "pystr list"
  created_at :: nat
  updated_at :: nat

section \<open>The suggestions endpoint\<close>

text \<open>The dictionaries \<open>{"country", "city", "doc"}\<close> and \<open>{"city", "score", "reason"}\<close>.\<close>

record candidate =
  cand_country :: pystr
  cand_city :: pystr
  cand_doc :: pystr

record suggestion =
  city :: pystr
  score :: real
  reason :: pystr

text \<open>
  What the endpoint answers: \<open>jsonify({"ok": False, "error": e}), 400\<close>, or
  \<open>jsonify({"ok": True, "suggestions": out})\<close> with or without a \<open>"note"\<close>, or an exception
  that leaves the view function (the vectorizer raises \<open>ValueError\<close> on an empty vocabulary).
\<close>

datatype response =
  Failure nat pystr
| Success "(pystr \<times> suggestion list) list" "pystr option"
| Raised

text \<open>The document of one trip (lines 247 to 254).\<close>

definition trip_doc :: "trip \<Rightarrow> pystr" where
  "trip_doc t =
     strip (join space [strip (country t), join space (cities t),
                        strip (trip_notes t), join space (companions t)])"

text \<open>The loop that collects \<open>visited_docs\<close> (lines 245 to 256).\<close>

definition visited_docs :: "trip list \<Rightarrow> pystr list" where
  "visited_docs ts =
     foldl (\<lambda>docs t. let doc = trip_doc t in if doc \<noteq> [] then docs @ [doc] else docs)
           [] ts"

text \<open>The two nested loops that collect \<open>candidates\<close> (lines 269 to 272).\<close>

definition make_candidate :: "pystr \<Rightarrow> pystr \<Rightarrow> candidate" where
  "make_candidate c ci = \<lparr>cand_country = c, cand_city = ci, cand_doc = c @ space @ ci\<rparr>"

definition build_candidates :: "pystr list \<Rightarrow> catalog \<Rightarrow> candidate list" where
  "build_candidates pl country_cities =
     foldl (\<lambda>cands c.
              foldl (\<lambda>cands ci. cands @ [make_candidate c ci]) cands (dict_get country_cities c))
           [] pl"

definition catalog_error :: pystr where
  "catalog_error = py ''Missing or empty static/data/country_cities.json''"

definition no_candidates_note :: pystr where
  "no_candidates_note =
     py ''No candidates found for your planned countries. Add cities in static/data/country_cities.json.''"

text \<open>The cold-start message; its dash is U+2014.\<close>

definition starter_reason :: pystr where
  "starter_reason = py ''No past trips yet '' @ [8212] @ py '' showing starter cities.''"

definition starter :: "candidate \<Rightarrow> suggestion" where
  "starter c = \<lparr>city = cand_city c, score = 0.10, reason = starter_reason\<rparr>"

text \<open>
  The cold-start branch (lines 285 to 296): \<open>out.setdefault(k, []).append(x)\<close> for every
  candidate, then \<open>out[k] = out[k][:8]\<close> for every key.
\<close>

definition cap :: nat where
  "cap = 8"

definition cold_start :: "candidate list \<Rightarrow> (pystr \<times> suggestion list) list" where
  "cold_start candidates =
     (let out = foldl (\<lambda>out c. AList.update (cand_country c)
                                   (dict_get out (cand_country c) @ [starter c]) out)
                      [] candidates
      in foldl (\<lambda>out k. AList.update k (take cap (dict_get out k)) out) out (map fst out))"

text \<open>
  \<open>xs.sort(key=f, reverse=True)\<close>: a stable sort in which elements with equal keys keep
  their order. CPython reverses the list, sorts it stably in ascending order of the key,
  and reverses the result.
\<close>

definition sort_reverse :: "('a \<Rightarrow> 'k::linorder) \<Rightarrow> 'a list \<Rightarrow> 'a list" where
  "sort_reverse f xs = rev (sort_key f (rev xs))"

text \<open>
  The reason of a scored suggestion; \<open>fmt\<close> is the float format \<open>:.2f\<close> of Python.
\<close>

definition matched :: "(real \<Rightarrow> pystr) \<Rightarrow> candidate \<times> real \<Rightarrow> suggestion" where
  "matched fmt x =
     \<lparr>city = cand_city (fst x), score = snd x,
      reason = py ''Matches your travel profile (score '' @ fmt (snd x) @ py '').''\<rparr>"

text \<open>The loop that fills the buckets of the scored branch (lines 316 to 330).\<close>

definition bucket_step ::
  "(real \<Rightarrow> pystr) \<Rightarrow> (pystr \<times> suggestion list) list \<Rightarrow> candidate \<times> real
     \<Rightarrow> (pystr \<times> suggestion list) list" where
  "bucket_step fmt out x =
     (let k = cand_country (fst x);
          out1 = (if map_of out k = None then AList.update k [] out else out)
      in if length (dict_get out1 k) \<ge> cap then out1
         else AList.update k (dict_get out1 k @ [matched fmt x]) out1)"

definition top_per_country ::
  "(real \<Rightarrow> pystr) \<Rightarrow> (candidate \<times> real) list \<Rightarrow> (pystr \<times> suggestion list) list" where
  "top_per_country fmt scored = foldl (bucket_step fmt) [] (sort_reverse snd scored)"

text \<open>
  \<open>api_suggestions\<close>, given the planned list of the state row, the trips the query returns
  and the catalog file. The parameter \<open>scorer\<close> stands for lines 303 to 310, the calls into
  scikit-learn and NumPy: from \<open>visited_docs\<close> and \<open>candidate_docs\<close> (the two parts of
  \<open>all_docs\<close>) it gives the array \<open>sims\<close>, or \<open>None\<close> when the vectorizer raises.
\<close>

definition api_suggestions ::
  "(pystr list \<Rightarrow> pystr list) \<Rightarrow> (pystr list \<Rightarrow> pystr list \<Rightarrow> real list option)
     \<Rightarrow> (real \<Rightarrow> pystr) \<Rightarrow> pystr list \<Rightarrow> trip list \<Rightarrow> catalog_file \<Rightarrow> response" where
  "api_suggestions it scorer fmt pl ts file =
     (let docs = visited_docs ts;
          country_cities = load_country_city_catalog it file
      in if country_cities = [] then Failure 400 catalog_error
         else let candidates = build_candidates pl country_cities
              in if candidates = [] then Success [] (Some no_candidates_note)
                 else if docs = [] then Success (cold_start candidates) None
                 else case scorer docs (map cand_doc candidates) of
                        None \<Rightarrow> Raised
                      | Some sims \<Rightarrow> Success (top_per_country fmt (zip candidates sims)) None)"

text \<open>The candidates of a request.\<close>

abbreviation candidates_of :: "(pystr list \<Rightarrow> pystr list) \<Rightarrow> pystr list \<Rightarrow> catalog_file \<Rightarrow> candidate list" where
  "candidates_of it pl file \<equiv> build_candidates pl (load_country_city_catalog it file)"

section \<open>The endpoints that change the stored state\<close>

text \<open>
  The database: the single \<open>AppState\<close> row with id 1, which exists from the start
  (\<open>_ensure_state_row\<close> runs when the module is loaded), and the \<open>Trip\<close> table.
\<close>

record db =
  state :: app_state
  trips :: "trip list"

definition init_db :: "nat \<Rightarrow> db" where
  "init_db now =
     \<lparr>state = \<lparr>row_id = 1, visited = [], planned = [], created_at = now, updated_at = now\<rparr>,
      trips = []\<rparr>"

text \<open>
  The JSON bodies of the two POST endpoints. A field that must be a list is \<open>None\<close> when
  the body gives something else, and holds the members after \<open>str(x)\<close> otherwise; a date
  is \<open>None\<close> when the body has none.
\<close>

record state_payload =
  p_visited :: "pystr list option"
  p_planned :: "pystr list option"

record trip_payload =
  p_country :: pystr
  p_start_date :: "pystr option"
  p_end_date :: "pystr option"
  p_cities :: "pystr list option"
  p_companions :: "pystr list option"
  p_notes :: pystr

datatype reply =
  Rejected nat pystr
| State_set "pystr list" "pystr list"
| Trip_added nat
| Crashed

text \<open>
  \<open>api_set_state\<close>. Both lists are replaced, each normalised on its own. The session writes
  the row, and the \<open>onupdate\<close> hook then sets \<open>updated_at\<close>, when a column has a new value.
\<close>

definition api_set_state ::
  "(pystr list \<Rightarrow> pystr list) \<Rightarrow> nat \<Rightarrow> state_payload \<Rightarrow> db \<Rightarrow> reply \<times> db" where
  "api_set_state it now payload d =
     (case (p_visited payload, p_planned payload) of
        (Some v, Some p) \<Rightarrow>
          let s = state d;
              s1 = s\<lparr>visited := uniq_sorted it v, planned := uniq_sorted it p\<rparr>;
              s2 = (if s1 = s then s else s1\<lparr>updated_at := now\<rparr>)
          in (State_set (visited s2) (planned s2), d\<lparr>state := s2\<rparr>)
      | _ \<Rightarrow> (Rejected 400 (py ''visited/planned must be lists''), d))"

text \<open>
  \<open>_parse_date_yyyy_mm_dd\<close>; \<open>strptime\<close> is \<open>datetime.strptime(value, "%Y-%m-%d").date()\<close>,
  which is \<open>None\<close> when it raises \<open>ValueError\<close>. The outer \<open>None\<close> of the result is that
  exception.
\<close>

definition parse_date_yyyy_mm_dd ::
  "(pystr \<Rightarrow> nat option) \<Rightarrow> pystr option \<Rightarrow> nat option option" where
  "parse_date_yyyy_mm_dd strptime v =
     (case v of
        None \<Rightarrow> Some None
      | Some x \<Rightarrow> if x = [] then Some None else map_option Some (strptime x))"

text \<open>
  \<open>api_add_trip\<close>. The database gives the new trip the id \<open>tid\<close>; \<open>now\<close> is the clock when
  the trip is inserted and \<open>later\<close> the clock when the state row is written.
\<close>

definition api_add_trip ::
  "(pystr list \<Rightarrow> pystr list) \<Rightarrow> (pystr \<Rightarrow> nat option) \<Rightarrow> nat \<Rightarrow> nat \<Rightarrow> nat
     \<Rightarrow> trip_payload \<Rightarrow> db \<Rightarrow> reply \<times> db" where
  "api_add_trip it strptime tid now later payload d =
     (let c = strip (p_country payload)
      in if c = [] then (Rejected 400 (py ''country is required''), d)
         else case parse_date_yyyy_mm_dd strptime (p_start_date payload) of
           None \<Rightarrow> (Crashed, d)
         | Some sd \<Rightarrow>
          (case parse_date_yyyy_mm_dd strptime (p_end_date payload) of
           None \<Rightarrow> (Crashed, d)
         | Some ed \<Rightarrow>
          (case (p_cities payload, p_companions payload) of
           (Some cs, Some cps) \<Rightarrow>
             let t = \<lparr>trip_id = tid, country = c, start_date = sd, end_date = ed,
                      cities = uniq_sorted it cs, companions = uniq_sorted it cps,
                      trip_notes = strip (p_notes payload), trip_created_at = now\<rparr>;
                 d1 = d\<lparr>trips := trips d @ [t]\<rparr>;
                 s = state d1
             in if c \<notin> set (visited s)
                then (Trip_added tid,
                      d1\<lparr>state := s\<lparr>visited := uniq_sorted it (visited s @ [c]),
                                     planned := filter (\<lambda>x. x \<noteq> c) (planned s),
                                     updated_at := later\<rparr>\<rparr>)
                else (Trip_added tid, d1)
         | _ \<Rightarrow> (Rejected 400 (py ''cities/companions must be lists''), d))))"

section \<open>Sample inputs\<close>

text \<open>
  A scorer that answers a given array of scores, and the float format on the scores used
  with it. The scores given to it are those of the documents at hand: 0 for a candidate
  that shares no term with the profile, \<open>1 + 1 / 2 ^ 52\<close> (the double 1.0000000000000002) for
  a single candidate whose document is also the document of each trip, and 0.2448, to
  four places, for the candidate that shares the term of the city with the notes of the
  trip to Porto.
\<close>

definition returning :: "real list \<Rightarrow> pystr list \<Rightarrow> pystr list \<Rightarrow> real list option" where
  "returning sims vdocs cdocs = Some sims"

definition sample_fmt :: "real \<Rightarrow> pystr" where
  "sample_fmt x = (if x = 0 then py ''0.00'' else if x = 0.2448 then py ''0.24'' else py ''1.00'')"

definition Spain :: pystr where "Spain = py ''Spain''"
definition France :: pystr where "France = py ''France''"
definition Granada :: pystr where "Granada = py ''Granada''"
definition Madrid :: pystr where "Madrid = py ''Madrid''"

text \<open>
  Three catalog files: one whose list for Spain repeats a city and whose value for France
  is not a list, one with a single city, and one with ten cities.
\<close>

definition sample_file :: catalog_file where
  "sample_file = Some [(Spain, Some [Madrid, Granada, Madrid]), (France, None)]"

definition granada_file :: catalog_file where
  "granada_file = Some [(Spain, Some [Granada])]"

definition spain_file :: catalog_file where
  "spain_file =
     Some [(Spain, Some [py ''Seville'', Madrid, py ''Zaragoza'', py ''Bilbao'', Granada,
                         py ''Valencia'', py ''Toledo'', py ''Barcelona'', py ''Malaga'',
                         py ''Cordoba''])]"

text \<open>A trip to Granada, a trip to Porto whose notes name Seville, and a trip with no text.\<close>

definition sample_trip :: trip where
  "sample_trip =
     \<lparr>trip_id = 1, country = Spain, start_date = None, end_date = None, cities = [Granada],
      companions = [], trip_notes = [], trip_created_at = 0\<rparr>"

definition porto_trip :: trip where
  "porto_trip =
     \<lparr>trip_id = 1, country = py ''Portugal'', start_date = None, end_date = None,
      cities = [py ''Porto''], companions = [], trip_notes = py ''Seville'',
      trip_created_at = 0\<rparr>"

definition blank_trip :: trip where
  "blank_trip =
     \<lparr>trip_id = 2, country = py '' '', start_date = None, end_date = None, cities = [],
      companions = [], trip_notes = [], trip_created_at = 0\<rparr>"

definition sample_trip_payload :: trip_payload where
  "sample_trip_payload =
     \<lparr>p_country = Spain, p_start_date = None, p_end_date = None, p_cities = Some [Granada],
      p_companions = Some [], p_notes = []\<rparr>"

definition sample_state_payload :: state_payload where
  "sample_state_payload = \<lparr>p_visited = Some [Spain], p_planned = Some [Spain]\<rparr>"

definition no_dates :: "pystr \<Rightarrow> nat option" where
  "no_dates x = None"

definition reversed_iteration :: "pystr list \<Rightarrow> pystr list" where
  "reversed_iteration xs = rev (remdups xs)"

text \<open>
  The database after a trip to Spain with the city Granada has been added to the initial
  database, and after Spain has then been planned again.
\<close>

definition visited_db :: db where
  "visited_db = snd (api_add_trip remdups no_dates 1 1 2 sample_trip_payload (init_db 0))"

definition replanned_db :: db where
  "replanned_db = snd (api_set_state remdups 3 sample_state_payload visited_db)"

text \<open>The database after a second trip to Spain has been added.\<close>

definition revisited_db :: db where
  "revisited_db = snd (api_add_trip remdups no_dates 2 4 5 sample_trip_payload replanned_db)"

text \<open>
  The database after Spain and France have been planned in the initial database, and after
  a trip to Spain has then been added.
\<close>

definition sample_plan_payload :: state_payload where
  "sample_plan_payload = \<lparr>p_visited = Some [], p_planned = Some [Spain, France]\<rparr>"

definition planned_db :: db where
  "planned_db = snd (api_set_state remdups 1 sample_plan_payload (init_db 0))"

definition tripped_db :: db where
  "tripped_db = snd (api_add_trip remdups no_dates 1 2 3 sample_trip_payload planned_db)"

text \<open>
  What the endpoint answers on the samples: the ranked cities of Spain for the trip to
  Porto, the starter cities of Spain, and the one suggestion for the trip to Granada.
\<close>

definition sample_ranked :: "suggestion list" where
  "sample_ranked =
     [\<lparr>city = py ''Seville'', score = 0.2448,
        reason = py ''Matches your travel profile (score 0.24).''\<rparr>,
      \<lparr>city = py ''Barcelona'', score = 0,
        reason = py ''Matches your travel profile (score 0.00).''\<rparr>,
      \<lparr>city = py ''Bilbao'', score = 0,
        reason = py ''Matches your travel profile (score 0.00).''\<rparr>,
      \<lparr>city = py ''Cordoba'', score = 0,
        reason = py ''Matches your travel profile (score 0.00).''\<rparr>,
      \<lparr>city = py ''Granada'', score = 0,
        reason = py ''Matches your travel profile (score 0.00).''\<rparr>,
      \<lparr>city = py ''Madrid'', score = 0,
        reason = py ''Matches your travel profile (score 0.00).''\<rparr>,
      \<lparr>city = py ''Malaga'', score = 0,
        reason = py ''Matches your travel profile (score 0.00).''\<rparr>,
      \<lparr>city = py ''Toledo'', score = 0,
        reason = py ''Matches your travel profile (score 0.00).''\<rparr>]"

definition sample_starters :: "suggestion list" where
  "sample_starters =
     map (\<lambda>c. \<lparr>city = py c, score = 0.10,
                 reason = py ''No past trips yet '' @ [8212] @ py '' showing starter cities.''\<rparr>)
         [''Barcelona'', ''Bilbao'', ''Cordoba'', ''Granada'', ''Madrid'', ''Malaga'',
          ''Seville'', ''Toledo'']"

definition granada_match :: suggestion where
  "granada_match =
     \<lparr>city = py ''Granada'', score = 1 + 1 / 2 ^ 52,
      reason = py ''Matches your travel profile (score 1.00).''\<rparr>"

definition granada_candidate :: candidate where
  "granada_candidate =
     \<lparr>cand_country = py ''Spain'', cand_city = py ''Granada'', cand_doc = py ''Spain Granada''\<rparr>"

section \<open>Vocabulary of the claims\<close>

text \<open>The cities an answer suggests, and the cities of the trips of the history.\<close>

definition suggested_cities :: "response \<Rightarrow> pystr list" where
  "suggested_cities r =
     (case r of Success out n \<Rightarrow> concat (map (\<lambda>e. map city (snd e)) out) | _ \<Rightarrow> [])"

definition visited_cities :: "trip list \<Rightarrow> pystr list" where
  "visited_cities ts = concat (map cities ts)"

section \<open>Text and normalisation\<close>

lemma rstrip_Cons:
  "\<not> P x \<Longrightarrow> rev (dropWhile P (rev (x # ys))) = x # rev (dropWhile P (rev ys))"
  by (simp add: dropWhile_append3)

lemma strip_cases:
  obtains (blank) "strip s = []" "dropWhile py_isspace s = []"
  | (content) x ys where "dropWhile py_isspace s = x # ys" "\<not> py_isspace x"
      "strip s = x # rev (dropWhile py_isspace (rev ys))"
proof (cases "dropWhile py_isspace s")
  case Nil
  then show ?thesis using blank by (simp add: strip_def)
next
  case (Cons x ys)
  then have "\<not> py_isspace x"
    using hd_dropWhile [of py_isspace s] by auto
  then show ?thesis using content Cons by (simp add: strip_def rstrip_Cons del: rev.simps)
qed

lemma strip_idem: "strip (strip s) = strip s"
proof (cases s rule: strip_cases)
  case blank
  show ?thesis unfolding blank(1) by (simp add: strip_def)
next
  case (content x ys)
  let ?r = "rev (dropWhile py_isspace (rev ys))"
  have "strip (x # ?r) = rev (dropWhile py_isspace (rev (x # ?r)))"
    using content(2) by (simp add: strip_def)
  also have "\<dots> = x # rev (dropWhile py_isspace (rev ?r))"
    using content(2) by (rule rstrip_Cons)
  also have "\<dots> = x # ?r" by simp
  finally show ?thesis using content(3) by simp
qed

lemma strip_Nil: "strip [] = []"
  by (simp add: strip_def)

lemma set_strip: "set (strip s) \<subseteq> set s"
  unfolding strip_def by (metis set_rev set_dropWhileD subsetI)

lemma strip_ends:
  assumes "strip s \<noteq> []"
  shows "\<not> py_isspace (hd (strip s))" and "\<not> py_isspace (last (strip s))"
proof -
  show "\<not> py_isspace (hd (strip s))"
    using assms by (cases s rule: strip_cases) auto
  have "dropWhile py_isspace (rev (dropWhile py_isspace s)) \<noteq> []"
    using assms by (simp add: strip_def)
  then have "\<not> py_isspace (hd (dropWhile py_isspace (rev (dropWhile py_isspace s))))"
    by (rule hd_dropWhile)
  then show "\<not> py_isspace (last (strip s))"
    using assms by (simp add: strip_def last_rev)
qed

lemma sorted_uniq_sorted: "sorted (uniq_sorted it vs)"
  by (simp add: uniq_sorted_def)

lemma set_uniq_sorted:
  "set_iteration it \<Longrightarrow> set (uniq_sorted it vs) = {strip v |v. v \<in> set vs \<and> strip v \<noteq> []}"
  by (auto simp: uniq_sorted_def set_iteration_def)

lemma distinct_uniq_sorted: "set_iteration it \<Longrightarrow> distinct (uniq_sorted it vs)"
  by (simp add: uniq_sorted_def set_iteration_def)

lemma uniq_sorted_iteration:
  assumes "set_iteration it1" and "set_iteration it2"
  shows "uniq_sorted it1 vs = uniq_sorted it2 vs"
proof (rule sorted_distinct_set_unique)
  show "set (uniq_sorted it1 vs) = set (uniq_sorted it2 vs)"
    using assms by (simp add: set_uniq_sorted)
qed (use assms in \<open>simp_all add: sorted_uniq_sorted distinct_uniq_sorted\<close>)

lemma load_catalog_iteration:
  assumes "set_iteration it1" and "set_iteration it2"
  shows "load_country_city_catalog it1 file = load_country_city_catalog it2 file"
proof -
  have "uniq_sorted it1 = uniq_sorted it2"
    using uniq_sorted_iteration [OF assms] by (rule ext)
  then show ?thesis by (simp only: load_country_city_catalog_def)
qed

lemma remdups_iteration: "set_iteration remdups"
  by (simp add: set_iteration_def)

section \<open>The loops of the suggestions endpoint\<close>

lemma visited_docs_foldl:
  "foldl (\<lambda>docs t. let doc = trip_doc t in if doc \<noteq> [] then docs @ [doc] else docs) acc ts
     = acc @ filter (\<lambda>d. d \<noteq> []) (map trip_doc ts)"
  by (induction ts arbitrary: acc) (simp_all add: Let_def)

lemma visited_docs_eq: "visited_docs ts = filter (\<lambda>d. d \<noteq> []) (map trip_doc ts)"
  by (simp add: visited_docs_def visited_docs_foldl)

lemma candidates_inner:
  "foldl (\<lambda>cands ci. cands @ [make_candidate c ci]) acc xs = acc @ map (make_candidate c) xs"
  by (induction xs arbitrary: acc) simp_all

lemma candidates_outer:
  "foldl (\<lambda>cands c. foldl (\<lambda>cands ci. cands @ [make_candidate c ci]) cands (dict_get cat c)) acc pl
     = acc @ concat (map (\<lambda>c. map (make_candidate c) (dict_get cat c)) pl)"
  by (induction pl arbitrary: acc) (simp_all add: candidates_inner)

lemma build_candidates_eq:
  "build_candidates pl cat = concat (map (\<lambda>c. map (make_candidate c) (dict_get cat c)) pl)"
  by (simp add: build_candidates_def candidates_outer)

lemma dict_get_update:
  "dict_get (AList.update k v al) k' = (if k' = k then v else dict_get al k')"
  by (simp add: dict_get_def update_conv')

lemma map_of_dict_get: "map_of al k = Some v \<Longrightarrow> dict_get al k = v"
  by (simp add: dict_get_def)

lemma setdefault_loop:
  "map_of (foldl (\<lambda>out c. AList.update (cand_country c)
                     (dict_get out (cand_country c) @ [starter c]) out) [] cs) k
     = (if filter (\<lambda>c. cand_country c = k) cs = [] then None
        else Some (map starter (filter (\<lambda>c. cand_country c = k) cs)))"
proof (induction cs rule: rev_induct)
  case Nil
  then show ?case by simp
next
  case (snoc c cs)
  then show ?case
    by (auto simp: update_conv' dict_get_def)
qed

lemma cap_loop:
  "set ks \<subseteq> dom (map_of out) \<Longrightarrow>
   map_of (foldl (\<lambda>out k. AList.update k (take cap (dict_get out k)) out) out ks) k
     = (if k \<in> set ks then map_option (take cap) (map_of out k) else map_of out k)"
proof (induction ks arbitrary: out)
  case Nil
  then show ?case by simp
next
  case (Cons a ks)
  let ?out = "AList.update a (take cap (dict_get out a)) out"
  have dom: "set ks \<subseteq> dom (map_of ?out)"
    using Cons.prems by (auto simp: update_conv')
  obtain v where v: "map_of out a = Some v"
    using Cons.prems by auto
  show ?case
    unfolding foldl_Cons Cons.IH [OF dom]
    using v by (auto simp: update_conv' dict_get_def)
qed

lemma map_of_keys_if:
  "(if k \<in> set (map fst al) then map_option f (map_of al k) else map_of al k)
     = map_option f (map_of al k)"
proof (cases "map_of al k")
  case None
  then show ?thesis by simp
next
  case (Some v)
  then have "(k, v) \<in> set al" by (rule map_of_SomeD)
  then have "k \<in> set (map fst al)" by force
  then show ?thesis by simp
qed

lemma map_of_cold_start:
  "map_of (cold_start cs) k
     = (if filter (\<lambda>c. cand_country c = k) cs = [] then None
        else Some (map starter (take cap (filter (\<lambda>c. cand_country c = k) cs))))"
proof -
  let ?out = "foldl (\<lambda>out c. AList.update (cand_country c)
                     (dict_get out (cand_country c) @ [starter c]) out) [] cs"
  have "set (map fst ?out) \<subseteq> dom (map_of ?out)"
    by (simp add: dom_map_of_conv_image_fst)
  then have "map_of (cold_start cs) k
      = (if k \<in> set (map fst ?out) then map_option (take cap) (map_of ?out k) else map_of ?out k)"
    unfolding cold_start_def Let_def by (rule cap_loop)
  also have "\<dots> = map_option (take cap) (map_of ?out k)"
    by (rule map_of_keys_if)
  finally show ?thesis
    by (simp add: setdefault_loop take_map)
qed

lemma bucket_step_map_of:
  "map_of (bucket_step fmt out x) k
     = (if cand_country (fst x) = k
        then Some (if length (dict_get out k) \<ge> cap then dict_get out k
                   else dict_get out k @ [matched fmt x])
        else map_of out k)"
  by (auto simp: bucket_step_def Let_def update_conv' dict_get_def)

lemma bucket_loop:
  "map_of (foldl (bucket_step fmt) [] xs) k
     = (if filter (\<lambda>x. cand_country (fst x) = k) xs = [] then None
        else Some (map (matched fmt) (take cap (filter (\<lambda>x. cand_country (fst x) = k) xs))))"
proof (induction xs rule: rev_induct)
  case Nil
  then show ?case by simp
next
  case (snoc x xs)
  let ?out = "foldl (bucket_step fmt) [] xs"
  let ?ys = "filter (\<lambda>x. cand_country (fst x) = k) xs"
  have get: "dict_get ?out k = map (matched fmt) (take cap ?ys)"
    using snoc.IH by (simp add: dict_get_def)
  show ?case
  proof (cases "cand_country (fst x) = k")
    case True
    then show ?thesis
      by (simp add: bucket_step_map_of get)
  next
    case False
    then show ?thesis
      using snoc.IH by (simp add: bucket_step_map_of)
  qed
qed




lemma filter_sort_reverse: "filter P (sort_reverse f xs) = sort_reverse f (filter P xs)"
  by (simp add: sort_reverse_def rev_filter [symmetric] filter_sort)

lemma map_of_top_per_country:
  "map_of (top_per_country fmt scored) k
     = (if filter (\<lambda>x. cand_country (fst x) = k) scored = [] then None
        else Some (map (matched fmt)
               (take cap (sort_reverse snd (filter (\<lambda>x. cand_country (fst x) = k) scored)))))"
proof -
  have "filter (\<lambda>x. cand_country (fst x) = k) (sort_reverse snd scored) = [] \<longleftrightarrow>
        filter (\<lambda>x. cand_country (fst x) = k) scored = []"
    by (simp add: filter_empty_conv sort_reverse_def)
  then show ?thesis
    by (simp add: top_per_country_def bucket_loop filter_sort_reverse)
qed


lemma distinct_keys_foldl:
  assumes "\<And>out x. distinct (map fst out) \<Longrightarrow> distinct (map fst (f out x))"
    and "distinct (map fst out)"
  shows "distinct (map fst (foldl f out xs))"
  using assms(2) by (induction xs arbitrary: out) (simp_all add: assms(1))

lemma distinct_keys_cold_start: "distinct (map fst (cold_start cs))"
  unfolding cold_start_def Let_def
  by (intro distinct_keys_foldl distinct_update) simp_all

lemma distinct_keys_bucket_step:
  "distinct (map fst out) \<Longrightarrow> distinct (map fst (bucket_step fmt out x))"
  by (simp add: bucket_step_def Let_def distinct_update)

lemma distinct_keys_top_per_country: "distinct (map fst (top_per_country fmt xs))"
  unfolding top_per_country_def
  by (intro distinct_keys_foldl distinct_keys_bucket_step) simp_all

lemma cold_start_entry:
  assumes "(k, lst) \<in> set (cold_start cs)"
  shows "lst = map starter (take cap (filter (\<lambda>c. cand_country c = k) cs))"
    and "filter (\<lambda>c. cand_country c = k) cs \<noteq> []"
proof -
  have "map_of (cold_start cs) k = Some lst"
    using assms distinct_keys_cold_start by (rule map_of_is_SomeI [rotated])
  then show "lst = map starter (take cap (filter (\<lambda>c. cand_country c = k) cs))"
    and "filter (\<lambda>c. cand_country c = k) cs \<noteq> []"
    by (simp_all add: map_of_cold_start split: if_splits)
qed

lemma top_per_country_entry:
  assumes "(k, lst) \<in> set (top_per_country fmt xs)"
  shows "lst = map (matched fmt)
           (take cap (sort_reverse snd (filter (\<lambda>x. cand_country (fst x) = k) xs)))"
    and "filter (\<lambda>x. cand_country (fst x) = k) xs \<noteq> []"
proof -
  have "map_of (top_per_country fmt xs) k = Some lst"
    using assms distinct_keys_top_per_country by (rule map_of_is_SomeI [rotated])
  then show "lst = map (matched fmt)
           (take cap (sort_reverse snd (filter (\<lambda>x. cand_country (fst x) = k) xs)))"
    and "filter (\<lambda>x. cand_country (fst x) = k) xs \<noteq> []"
    by (simp_all add: map_of_top_per_country split: if_splits)
qed

text \<open>The three ways in which the endpoint answers with suggestions.\<close>

lemma api_suggestions_Success:
  assumes "api_suggestions it scorer fmt pl ts file = Success out n"
  obtains (none) "candidates_of it pl file = []" "out = []" "n = Some no_candidates_note"
  | (cold) "candidates_of it pl file \<noteq> []" "visited_docs ts = []"
      "out = cold_start (candidates_of it pl file)" "n = None"
  | (scored) sims where "candidates_of it pl file \<noteq> []" "visited_docs ts \<noteq> []"
      "scorer (visited_docs ts) (map cand_doc (candidates_of it pl file)) = Some sims"
      "out = top_per_country fmt (zip (candidates_of it pl file) sims)" "n = None"
  using assms unfolding api_suggestions_def Let_def
  by (auto split: if_splits option.splits)

lemma cold_start_keys: "fst ` set (cold_start cs) = cand_country ` set cs"
proof -
  have "k \<in> fst ` set (cold_start cs) \<longleftrightarrow> k \<in> cand_country ` set cs" for k
  proof -
    have "k \<in> fst ` set (cold_start cs) \<longleftrightarrow> map_of (cold_start cs) k \<noteq> None"
      by (simp add: map_of_eq_None_iff)
    also have "\<dots> \<longleftrightarrow> filter (\<lambda>c. cand_country c = k) cs \<noteq> []"
      by (simp add: map_of_cold_start)
    also have "\<dots> \<longleftrightarrow> k \<in> cand_country ` set cs"
      by (auto simp: filter_empty_conv)
    finally show ?thesis .
  qed
  then show ?thesis by blast
qed


section \<open>The candidates\<close>










section \<open>Countries and cities of the suggestions\<close>

lemma candidates_mem:
  assumes "c \<in> set (build_candidates pl cat)"
  shows "cand_country c \<in> set pl" and "cand_city c \<in> set (dict_get cat (cand_country c))"
    and "cand_doc c = cand_country c @ [32] @ cand_city c"
  using assms by (auto simp: build_candidates_eq make_candidate_def space_def)

lemma set_sort_reverse: "set (sort_reverse f xs) = set xs"
  by (simp add: sort_reverse_def)

lemma suggestion_keys_planned:
  assumes "api_suggestions it scorer fmt pl ts file = Success out n"
    and "(k, lst) \<in> set out"
  shows "k \<in> set pl"
  using assms(1)
proof (cases rule: api_suggestions_Success)
  case none
  then show ?thesis using assms(2) by simp
next
  case cold
  have "filter (\<lambda>c. cand_country c = k) (candidates_of it pl file) \<noteq> []"
    using assms(2) cold(3) by (simp add: cold_start_entry(2))
  then obtain c where "c \<in> set (candidates_of it pl file)" "cand_country c = k"
    by (auto simp: filter_empty_conv)
  then show ?thesis
    using candidates_mem(1) [of c pl] by auto
next
  case (scored sims)
  have "filter (\<lambda>x. cand_country (fst x) = k) (zip (candidates_of it pl file) sims) \<noteq> []"
    using assms(2) scored(4) by (simp add: top_per_country_entry(2))
  then obtain x where "x \<in> set (zip (candidates_of it pl file) sims)" "cand_country (fst x) = k"
    by (auto simp: filter_empty_conv)
  moreover from this have "fst x \<in> set (candidates_of it pl file)"
    by (metis prod.collapse set_zip_leftD)
  ultimately show ?thesis
    using candidates_mem(1) [of "fst x" pl] by auto
qed

section \<open>Adding a trip\<close>

lemma uniq_sorted_trimmed:
  assumes "set_iteration it" and "v \<in> set (uniq_sorted it vs)"
  shows "v \<noteq> []" and "strip v = v"
  using assms by (auto simp: set_uniq_sorted strip_idem)

lemma uniq_sorted_mem:
  assumes "set_iteration it" and "v \<in> set vs" and "strip v \<noteq> []"
  shows "strip v \<in> set (uniq_sorted it vs)"
  using assms by (auto simp: set_uniq_sorted)

lemma uniq_sorted_normalised:
  assumes "set_iteration it" and "\<forall>v \<in> set vs. v \<noteq> [] \<and> strip v = v"
  shows "set (uniq_sorted it vs) = set vs"
proof
  show "set (uniq_sorted it vs) \<subseteq> set vs"
    using assms by (auto simp: set_uniq_sorted)
  show "set vs \<subseteq> set (uniq_sorted it vs)"
  proof
    fix v assume "v \<in> set vs"
    then have "strip v \<in> set (uniq_sorted it vs)"
      using assms by (intro uniq_sorted_mem) auto
    then show "v \<in> set (uniq_sorted it vs)"
      using assms(2) \<open>v \<in> set vs\<close> by simp
  qed
qed

text \<open>What a request that adds a trip does.\<close>

lemma api_add_trip_added:
  assumes "api_add_trip it strptime tid now later payload d = (Trip_added i, d')"
  shows "strip (p_country payload) \<noteq> []" and "i = tid"
    and "butlast (trips d') = trips d"
    and "country (last (trips d')) = strip (p_country payload)"
    and "state d' =
      (if strip (p_country payload) \<in> set (visited (state d)) then state d
       else (state d)\<lparr>visited := uniq_sorted it (visited (state d) @ [strip (p_country payload)]),
                       planned := filter (\<lambda>x. x \<noteq> strip (p_country payload)) (planned (state d)),
                       updated_at := later\<rparr>)"
  using assms unfolding api_add_trip_def Let_def
  by (auto split: if_splits option.splits prod.splits)

lemma api_add_trip_rejected:
  assumes "api_add_trip it strptime tid now later payload d = (r, d')"
    and "\<forall>i. r \<noteq> Trip_added i"
  shows "d' = d"
  using assms unfolding api_add_trip_def Let_def
  by (auto split: if_splits option.splits prod.splits)

text \<open>
  The stored planned list never has duplicates: it has none at the start, and each of the
  two endpoints that write the state row keeps it so.
\<close>

lemma init_planned_distinct: "distinct (planned (state (init_db t)))"
  by (simp add: init_db_def)

lemma set_state_planned_distinct:
  assumes "set_iteration it" and "api_set_state it now payload d = (r, d')"
    and "distinct (planned (state d))"
  shows "distinct (planned (state d'))"
  using assms(2,3) distinct_uniq_sorted [OF assms(1)]
  unfolding api_set_state_def Let_def
  by (auto split: option.splits if_splits)

lemma add_trip_planned_distinct:
  assumes "api_add_trip it strptime tid now later payload d = (r, d')"
    and "distinct (planned (state d))"
  shows "distinct (planned (state d'))"
proof (cases "\<exists>i. r = Trip_added i")
  case True
  then obtain i where "r = Trip_added i" ..
  with assms(1) have "api_add_trip it strptime tid now later payload d = (Trip_added i, d')"
    by simp
  then show ?thesis
    using assms(2) by (simp add: api_add_trip_added(5))
next
  case False
  then show ?thesis
    using api_add_trip_rejected [OF assms(1)] assms(2) by simp
qed

section \<open>Evaluating the sample inputs\<close>

lemmas sample_eval =
  py_def strip_def py_isspace_def uniq_sorted_def Spain_def France_def Granada_def Madrid_def
  sample_file_def granada_file_def spain_file_def sample_trip_def porto_trip_def returning_def
  sample_fmt_def load_country_city_catalog_def dict_get_def api_suggestions_def visited_docs_def
  trip_doc_def space_def build_candidates_def make_candidate_def top_per_country_def
  bucket_step_def sort_reverse_def matched_def cap_def cold_start_def starter_def
  starter_reason_def sample_ranked_def sample_starters_def granada_match_def
  granada_candidate_def Let_def

lemmas state_eval =
  api_add_trip_def api_set_state_def parse_date_yyyy_mm_dd_def init_db_def
  sample_trip_payload_def sample_state_payload_def visited_db_def replanned_db_def no_dates_def
  suggested_cities_def visited_cities_def blank_trip_def reversed_iteration_def
  revisited_db_def sample_plan_payload_def planned_db_def tripped_db_def

section \<open>The claims\<close>


definition "ranked_sample = 
     [\<lparr>city = py ''Seville'', score = 0.2448,
        reason = py ''Matches your travel profile (score 0.24).''\<rparr>,
      \<lparr>city = py ''Barcelona'', score = 0,
        reason = py ''Matches your travel profile (score 0.00).''\<rparr>,
      \<lparr>city = py ''Bilbao'', score = 0,
        reason = py ''Matches your travel profile (score 0.00).''\<rparr>,
      \<lparr>city = py ''Cordoba'', score = 0,
        reason = py ''Matches your travel profile (score 0.00).''\<rparr>,
      \<lparr>city = py ''Granada'', score = 0,
        reason = py ''Matches your travel profile (score 0.00).''\<rparr>,
      \<lparr>city = py ''Madrid'', score = 0,
        reason = py ''Matches your travel profile (score 0.00).''\<rparr>,
      \<lparr>city = py ''Malaga'', score = 0,
        reason = py ''Matches your travel profile (score 0.00).''\<rparr>,
      \<lparr>city = py ''Toledo'', score = 0,
        reason = py ''Matches your travel profile (score 0.00).''\<rparr>]"


text \<open>
  C2. With an empty profile and at least one candidate, the endpoint answers with
  suggestions and no note. The keys of the output are the countries that have a candidate,
  each once; the list of each country is made of the first 8 of the country's candidates
  in the order of their generation, each as the record of the candidate's city, the score
  0.10 and the starter reason. The scorer is not consulted.
\<close>

theorem cold_start_suggestions:
  assumes "visited_docs ts = []"
    and "candidates_of it pl file \<noteq> []"
  shows "\<exists>out. api_suggestions it scorer fmt pl ts file = Success out None \<and>
     distinct (map fst out) \<and>
     fst ` set out = cand_country ` set (candidates_of it pl file) \<and>
     (\<forall>k lst. (k, lst) \<in> set out \<longrightarrow>
        lst = map (\<lambda>c. \<lparr>city = cand_city c, score = 0.10,
                         reason = py ''No past trips yet '' @ [8212] @
                                  py '' showing starter cities.''\<rparr>)
                (take 8 (filter (\<lambda>c. cand_country c = k) (candidates_of it pl file))) \<and>
        map city lst
          = map cand_city (take 8 (filter (\<lambda>c. cand_country c = k) (candidates_of it pl file))) \<and>
        length lst \<le> 8 \<and>
        (\<forall>s \<in> set lst. score s = 0.10 \<and>
           reason s = py ''No past trips yet '' @ [8212] @ py '' showing starter cities.''))"
proof -
  have ne: "load_country_city_catalog it file \<noteq> []"
    using assms(2) by (auto simp: build_candidates_eq dict_get_def)
  have "api_suggestions it scorer fmt pl ts file
          = Success (cold_start (candidates_of it pl file)) None"
    using assms ne by (simp add: api_suggestions_def)
  moreover have "lst = map (\<lambda>c. \<lparr>city = cand_city c, score = 0.10,
                         reason = py ''No past trips yet '' @ [8212] @
                                  py '' showing starter cities.''\<rparr>)
                (take 8 (filter (\<lambda>c. cand_country c = k) (candidates_of it pl file))) \<and>
        map city lst
          = map cand_city (take 8 (filter (\<lambda>c. cand_country c = k) (candidates_of it pl file))) \<and>
        length lst \<le> 8 \<and>
        (\<forall>s \<in> set lst. score s = 0.10 \<and>
           reason s = py ''No past trips yet '' @ [8212] @ py '' showing starter cities.'')"
    if "(k, lst) \<in> set (cold_start (candidates_of it pl file))" for k lst
  proof -
    have "lst = map starter (take 8 (filter (\<lambda>c. cand_country c = k) (candidates_of it pl file)))"
      using cold_start_entry(1) [OF that] by (simp add: cap_def)
    then have lst: "lst = map (\<lambda>c. \<lparr>city = cand_city c, score = 0.10,
                         reason = py ''No past trips yet '' @ [8212] @
                                  py '' showing starter cities.''\<rparr>)
                (take 8 (filter (\<lambda>c. cand_country c = k) (candidates_of it pl file)))"
      by (simp add: starter_def starter_reason_def)
    have "map city lst
        = map cand_city (take 8 (filter (\<lambda>c. cand_country c = k) (candidates_of it pl file)))"
      and "length lst \<le> 8"
      and "\<forall>s \<in> set lst. score s = 0.10 \<and>
           reason s = py ''No past trips yet '' @ [8212] @ py '' showing starter cities.''"
      unfolding lst by auto
    with lst show ?thesis by blast
  qed
  ultimately show ?thesis
    using distinct_keys_cold_start [of "candidates_of it pl file"]
      cold_start_keys [of "candidates_of it pl file"] by blast
qed

theorem cold_start_suggestions_witness:
  "visited_docs [] = [] \<and> candidates_of remdups [Spain] spain_file \<noteq> [] \<and>
   api_suggestions remdups (returning []) sample_fmt [Spain] [] spain_file
     = Success [(Spain, sample_starters)] None \<and>
   length sample_starters = 8 \<and>
   map score sample_starters = [0.10, 0.10, 0.10, 0.10, 0.10, 0.10, 0.10, 0.10] \<and>
   map city sample_starters
     = map py [''Barcelona'', ''Bilbao'', ''Cordoba'', ''Granada'', ''Madrid'', ''Malaga'',
               ''Seville'', ''Toledo'']"
proof -
  have h1: "visited_docs [] = []"
    by (simp add: visited_docs_def)
  have h2: "candidates_of remdups [Spain] spain_file \<noteq> []"
    by (simp add: sample_eval)
  have h3: "api_suggestions remdups (returning []) sample_fmt [Spain] [] spain_file
     = Success [(Spain, sample_starters)] None"
    by (simp add: sample_eval)
  have "\<forall>s \<in> set sample_starters. score s = 0.10"
    using cold_start_suggestions [OF h1 h2, of "returning []" sample_fmt] unfolding h3 by auto
  then have "map score sample_starters = [0.10, 0.10, 0.10, 0.10, 0.10, 0.10, 0.10, 0.10]"
    by (simp add: sample_starters_def)
  moreover have "length sample_starters = 8"
    and "map city sample_starters
     = map py [''Barcelona'', ''Bilbao'', ''Cordoba'', ''Granada'', ''Madrid'', ''Malaga'',
               ''Seville'', ''Toledo'']"
    by (simp_all add: sample_starters_def)
  ultimately show ?thesis
    using h1 h2 h3 by blast
qed

text \<open>
  C3. When the catalog file is missing or the normalised catalog is empty, the endpoint
  answers with the status 400 and the message that names the catalog file, whatever the
  planned list and the trips are; it answers with no suggestions.
\<close>

theorem catalog_unavailable:
  assumes "file = None \<or> load_country_city_catalog it file = []"
  shows "api_suggestions it scorer fmt pl ts file = Failure 400 catalog_error"
proof -
  have "load_country_city_catalog it file = []"
    using assms by (auto simp: load_country_city_catalog_def)
  then show ?thesis
    by (simp add: api_suggestions_def)
qed

theorem catalog_unavailable_witness:
  "(Some [(France, None)] = None \<or> load_country_city_catalog remdups (Some [(France, None)]) = []) \<and>
   api_suggestions remdups (returning []) sample_fmt [France] [sample_trip] (Some [(France, None)])
     = Failure 400 catalog_error"
proof -
  have h: "Some [(France, None)] = None \<or> load_country_city_catalog remdups (Some [(France, None)]) = []"
    by (simp add: load_country_city_catalog_def)
  show ?thesis
    using h catalog_unavailable [OF h, of "returning []" sample_fmt "[France]" "[sample_trip]"] by simp
qed

text \<open>
  C5 as stated fails: the catalog is checked before the planned list is looked at, so a
  request with an empty planned list and a missing catalog is answered with the status 400.
\<close>

theorem no_planned_countries_counterexample:
  "api_suggestions remdups (returning []) sample_fmt [] [] None = Failure 400 catalog_error"
  by (simp add: api_suggestions_def load_country_city_catalog_def)

text \<open>
  C5, as amended. With an empty planned list and a normalised catalog that is not empty,
  the endpoint answers with an empty mapping of suggestions and the advisory note.
\<close>

theorem no_planned_countries:
  assumes "load_country_city_catalog it file \<noteq> []"
  shows "api_suggestions it scorer fmt [] ts file = Success [] (Some no_candidates_note)"
  using assms by (simp add: api_suggestions_def build_candidates_def)

theorem no_planned_countries_witness:
  "load_country_city_catalog remdups sample_file \<noteq> [] \<and>
   api_suggestions remdups (returning []) sample_fmt [] [sample_trip] sample_file
     = Success [] (Some no_candidates_note)"
proof -
  have h: "load_country_city_catalog remdups sample_file \<noteq> []"
    by (simp add: sample_eval)
  show ?thesis
    using h no_planned_countries [OF h, of "returning []" sample_fmt "[sample_trip]"] by simp
qed

text \<open>
  C4 as stated fails: no line of the endpoint compares a candidate with the cities of the
  trips. After a trip to Spain with the city Granada has been recorded and Spain has been
  planned again, the endpoint suggests Granada, the one city of the catalog.
\<close>

theorem suggests_visited_city_counterexample:
  "api_suggestions remdups (returning [1 + 1 / 2 ^ 52]) sample_fmt (planned (state replanned_db))
      (trips replanned_db) granada_file = Success [(Spain, [granada_match])] None \<and>
   Granada \<in> set (suggested_cities (api_suggestions remdups (returning [1 + 1 / 2 ^ 52]) sample_fmt
               (planned (state replanned_db)) (trips replanned_db) granada_file)) \<and>
   Granada \<in> set (visited_cities (trips replanned_db))"
  by (simp add: sample_eval state_eval)

text \<open>
  C4, as amended. Every suggestion is listed under a planned country, and its city is a
  city the normalised catalog lists for that country.
\<close>

theorem suggested_from_catalog:
  assumes "api_suggestions it scorer fmt pl ts file = Success out n"
    and "(k, lst) \<in> set out" and "s \<in> set lst"
  shows "k \<in> set pl \<and> city s \<in> set (dict_get (load_country_city_catalog it file) k)"
  using assms(1)
proof (cases rule: api_suggestions_Success)
  case none
  then show ?thesis using assms(2) by simp
next
  case cold
  have "lst = map starter (take cap (filter (\<lambda>c. cand_country c = k) (candidates_of it pl file)))"
    using assms(2) cold(3) by (simp add: cold_start_entry(1))
  then obtain c where "c \<in> set (candidates_of it pl file)" "cand_country c = k" "s = starter c"
    using assms(3) by (auto dest!: in_set_takeD)
  then show ?thesis
    using candidates_mem(1,2) [of c pl] by (auto simp: starter_def)
next
  case (scored sims)
  have "lst = map (matched fmt) (take cap (sort_reverse snd
          (filter (\<lambda>x. cand_country (fst x) = k) (zip (candidates_of it pl file) sims))))"
    using assms(2) scored(4) by (simp add: top_per_country_entry(1))
  then obtain x where "x \<in> set (zip (candidates_of it pl file) sims)"
      "cand_country (fst x) = k" "s = matched fmt x"
    using assms(3) by (auto dest!: in_set_takeD simp: set_sort_reverse)
  moreover from this have "fst x \<in> set (candidates_of it pl file)"
    by (metis prod.collapse set_zip_leftD)
  ultimately show ?thesis
    using candidates_mem(1,2) [of "fst x" pl] by (auto simp: matched_def)
qed

theorem suggested_from_catalog_witness:
  "api_suggestions remdups (returning [1 + 1 / 2 ^ 52]) sample_fmt [Spain] [sample_trip] granada_file
     = Success [(Spain, [granada_match])] None \<and>
   (Spain, [granada_match]) \<in> set [(Spain, [granada_match])] \<and>
   granada_match \<in> set [granada_match] \<and>
   Spain \<in> set [Spain] \<and>
   city granada_match \<in> set (dict_get (load_country_city_catalog remdups granada_file) Spain)"
proof -
  have h1: "api_suggestions remdups (returning [1 + 1 / 2 ^ 52]) sample_fmt [Spain] [sample_trip]
      granada_file = Success [(Spain, [granada_match])] None"
    by (simp add: sample_eval)
  have h2: "(Spain, [granada_match]) \<in> set [(Spain, [granada_match])]"
    by simp
  have h3: "granada_match \<in> set [granada_match]"
    by simp
  show ?thesis
    using h1 h2 h3 suggested_from_catalog [OF h1 h2 h3] by blast
qed







text \<open>
  C8. The answer of the endpoint is determined by the planned list, the trips and the
  catalog file: the one unspecified order of the code, the iteration order of the Python
  sets in \<open>_uniq_sorted\<close>, has no influence on it. The scorer is a function of the
  documents, as the scikit-learn calls are taken to be.
\<close>

theorem suggestions_deterministic:
  assumes "set_iteration it1" and "set_iteration it2"
  shows "api_suggestions it1 scorer fmt pl ts file = api_suggestions it2 scorer fmt pl ts file"
  unfolding api_suggestions_def load_catalog_iteration [OF assms] ..

theorem suggestions_deterministic_witness:
  "set_iteration remdups \<and> set_iteration reversed_iteration \<and>
   api_suggestions remdups (returning [0, 0]) sample_fmt [Spain] [porto_trip] sample_file
     = api_suggestions reversed_iteration (returning [0, 0]) sample_fmt [Spain] [porto_trip]
         sample_file"
proof -
  have h1: "set_iteration remdups"
    by (rule remdups_iteration)
  have h2: "set_iteration reversed_iteration"
    by (simp add: set_iteration_def reversed_iteration_def)
  show ?thesis
    using h1 h2 suggestions_deterministic [OF h1 h2] by blast
qed

text \<open>
  C9. The documents of the profile are the documents of the trips, in the order of the
  trips and without those that are empty: a trip's document is its trimmed country, its
  cities joined by spaces, its trimmed notes and its companions joined by spaces, joined
  by single spaces and trimmed. No trips give no documents, there is at most one document
  for a trip, and every document is non-empty and trimmed. The documents are a function of
  the trips only; nothing else is read or written.
\<close>

theorem profile_builder:
  "visited_docs ts
     = filter (\<lambda>d. d \<noteq> [])
         (map (\<lambda>t. strip (strip (country t) @ [32] @ join [32] (cities t) @ [32] @
                           strip (trip_notes t) @ [32] @ join [32] (companions t))) ts) \<and>
   visited_docs [] = [] \<and>
   length (visited_docs ts) \<le> length ts \<and>
   (\<forall>d \<in> set (visited_docs ts). d \<noteq> [] \<and> strip d = d)"
proof -
  have doc: "trip_doc t = strip (strip (country t) @ [32] @ join [32] (cities t) @ [32] @
                           strip (trip_notes t) @ [32] @ join [32] (companions t))" for t
    by (simp add: trip_doc_def space_def)
  have eq: "visited_docs ts
     = filter (\<lambda>d. d \<noteq> [])
         (map (\<lambda>t. strip (strip (country t) @ [32] @ join [32] (cities t) @ [32] @
                           strip (trip_notes t) @ [32] @ join [32] (companions t))) ts)"
    unfolding visited_docs_eq using doc by (metis (no_types))
  have nil: "visited_docs [] = []"
    by (simp add: visited_docs_def)
  have len: "length (visited_docs ts) \<le> length ts"
    using length_filter_le [of "\<lambda>d. d \<noteq> []" "map trip_doc ts"]
    by (simp only: visited_docs_eq length_map)
  have trimmed: "d \<noteq> [] \<and> strip d = d" if "d \<in> set (visited_docs ts)" for d
  proof -
    from that obtain t where "d = trip_doc t" and "d \<noteq> []"
      unfolding visited_docs_eq by auto
    then show ?thesis
      by (simp add: trip_doc_def strip_idem)
  qed
  show ?thesis
    using eq nil len trimmed by blast
qed

theorem profile_builder_witness:
  "visited_docs [sample_trip, blank_trip] = [py ''Spain Granada''] \<and> strip (py ''Spain Granada'') = py ''Spain Granada''"
proof -
  have e: "visited_docs [sample_trip, blank_trip] = [py ''Spain Granada'']"
    by (simp add: sample_eval state_eval)
  have "\<forall>d \<in> set (visited_docs [sample_trip, blank_trip]). d \<noteq> [] \<and> strip d = d"
    using profile_builder [of "[sample_trip, blank_trip]"] by blast
  then have "strip (py ''Spain Granada'') = py ''Spain Granada''"
    unfolding e by simp
  then show ?thesis
    using e by blast
qed

text \<open>
  C10 as stated fails. The state row is written only when the country of the trip is not
  yet in the visited list: a second trip to Spain, added while Spain is both visited and
  planned, leaves Spain planned, and the next suggestions have the key Spain. And when the
  row is written, its \<open>onupdate\<close> hook sets \<open>updated_at\<close>, a third field that changes.
\<close>

theorem add_trip_state_counterexample:
  "api_add_trip remdups no_dates 2 4 5 sample_trip_payload replanned_db
     = (Trip_added 2, revisited_db) \<and>
   Spain \<in> set (planned (state replanned_db)) \<and>
   Spain \<in> set (planned (state revisited_db)) \<and>
   api_suggestions remdups (returning [1 + 1 / 2 ^ 52]) sample_fmt (planned (state revisited_db))
      (trips revisited_db) granada_file = Success [(Spain, [granada_match])] None \<and>
   updated_at (state visited_db) \<noteq> updated_at (state (init_db 0))"
  by (simp add: sample_eval state_eval)

text \<open>
  C10, as amended. A request that adds a trip has a country \<open>c\<close> that is not empty
  after trimming. When \<open>c\<close> is already in the visited list, the state row stays as it is.
  Otherwise the visited list becomes the trimmed, duplicate-free, sorted list of its old
  entries and \<open>c\<close> (the old entries and \<open>c\<close> when the old entries were trimmed and not
  empty), \<open>c\<close> is removed from the planned list, so that \<open>c\<close> is no key of later
  suggestions, and \<open>updated_at\<close> is set to the time of the write. The id and
  \<open>created_at\<close> of the row never change.
\<close>

theorem add_trip_state:
  assumes "set_iteration it"
    and "api_add_trip it strptime tid now later payload d = (Trip_added i, d')"
  shows "strip (p_country payload) \<noteq> [] \<and>
    row_id (state d') = row_id (state d) \<and>
    created_at (state d') = created_at (state d) \<and>
    (strip (p_country payload) \<in> set (visited (state d)) \<longrightarrow> state d' = state d) \<and>
    (strip (p_country payload) \<notin> set (visited (state d)) \<longrightarrow>
       visited (state d') = uniq_sorted it (visited (state d) @ [strip (p_country payload)]) \<and>
       strip (p_country payload) \<in> set (visited (state d')) \<and>
       sorted (visited (state d')) \<and> distinct (visited (state d')) \<and>
       (\<forall>v \<in> set (visited (state d')). v \<noteq> [] \<and> strip v = v) \<and>
       ((\<forall>v \<in> set (visited (state d)). v \<noteq> [] \<and> strip v = v) \<longrightarrow>
          set (visited (state d')) = insert (strip (p_country payload)) (set (visited (state d)))) \<and>
       planned (state d') = filter (\<lambda>x. x \<noteq> strip (p_country payload)) (planned (state d)) \<and>
       strip (p_country payload) \<notin> set (planned (state d')) \<and>
       updated_at (state d') = later \<and>
       (\<forall>it' scorer fmt ts file out n.
          api_suggestions it' scorer fmt (planned (state d')) ts file = Success out n
            \<longrightarrow> strip (p_country payload) \<notin> fst ` set out))"
proof (cases "strip (p_country payload) \<in> set (visited (state d))")
  case True
  then show ?thesis
    using api_add_trip_added(1,5) [OF assms(2)] by simp
next
  case False
  let ?c = "strip (p_country payload)"
  note added = api_add_trip_added [OF assms(2)]
  have st: "state d' = (state d)\<lparr>visited := uniq_sorted it (visited (state d) @ [?c]),
                       planned := filter (\<lambda>x. x \<noteq> ?c) (planned (state d)),
                       updated_at := later\<rparr>"
    using added(5) False by simp
  have v: "visited (state d') = uniq_sorted it (visited (state d) @ [?c])"
    and p: "planned (state d') = filter (\<lambda>x. x \<noteq> ?c) (planned (state d))"
    and u: "updated_at (state d') = later"
    and r: "row_id (state d') = row_id (state d)" "created_at (state d') = created_at (state d)"
    unfolding st by simp_all
  have ne: "strip ?c \<noteq> []"
    using added(1) by (simp add: strip_idem)
  have "strip ?c \<in> set (uniq_sorted it (visited (state d) @ [?c]))"
    using assms(1) _ ne by (rule uniq_sorted_mem) simp
  then have mem: "?c \<in> set (visited (state d'))"
    unfolding v by (simp add: strip_idem)
  have norm: "\<forall>v \<in> set (visited (state d')). v \<noteq> [] \<and> strip v = v"
    unfolding v using uniq_sorted_trimmed [OF assms(1)] by blast
  have ins: "set (visited (state d')) = insert ?c (set (visited (state d)))"
    if "\<forall>v \<in> set (visited (state d)). v \<noteq> [] \<and> strip v = v"
  proof -
    have "\<forall>v \<in> set (visited (state d) @ [?c]). v \<noteq> [] \<and> strip v = v"
      using that added(1) by (simp add: strip_idem)
    with assms(1) have "set (uniq_sorted it (visited (state d) @ [?c])) = set (visited (state d) @ [?c])"
      by (rule uniq_sorted_normalised)
    then show ?thesis
      unfolding v by simp
  qed
  have notp: "?c \<notin> set (planned (state d'))"
    unfolding p by simp
  have keys: "?c \<notin> fst ` set out"
    if "api_suggestions it' scorer fmt (planned (state d')) ts file = Success out n"
    for it' scorer fmt ts "file" out n
    using suggestion_keys_planned [OF that] notp by auto
  have srt: "sorted (visited (state d'))" and dst: "distinct (visited (state d'))"
    unfolding v using assms(1) by (simp_all add: sorted_uniq_sorted distinct_uniq_sorted)
  show ?thesis
    using added(1) False v p u r mem norm ins notp keys srt dst by blast
qed

theorem add_trip_state_witness:
  "set_iteration remdups \<and>
   api_add_trip remdups no_dates 1 2 3 sample_trip_payload planned_db = (Trip_added 1, tripped_db) \<and>
   Spain \<notin> set (visited (state planned_db)) \<and> Spain \<in> set (planned (state planned_db)) \<and>
   Spain \<in> set (visited (state tripped_db)) \<and> Spain \<notin> set (planned (state tripped_db)) \<and>
   planned (state tripped_db) = [France] \<and> updated_at (state tripped_db) = 3 \<and>
   created_at (state tripped_db) = created_at (state planned_db)"
proof -
  have h1: "set_iteration remdups"
    by (rule remdups_iteration)
  have h2: "api_add_trip remdups no_dates 1 2 3 sample_trip_payload planned_db
      = (Trip_added 1, tripped_db)"
    by (simp add: sample_eval state_eval)
  have c: "strip (p_country sample_trip_payload) = Spain"
    by (simp add: sample_eval state_eval)
  have nv: "Spain \<notin> set (visited (state planned_db))"
    by (simp add: sample_eval state_eval)
  have pl: "Spain \<in> set (planned (state planned_db))" "planned (state tripped_db) = [France]"
    by (simp_all add: sample_eval state_eval)
  have "Spain \<in> set (visited (state tripped_db)) \<and> Spain \<notin> set (planned (state tripped_db)) \<and>
      updated_at (state tripped_db) = 3 \<and>
      created_at (state tripped_db) = created_at (state planned_db)"
    using add_trip_state [OF h1 h2] nv unfolding c by blast
  then show ?thesis
    using h1 h2 nv pl by blast
qed

end
